theory Spec2Isabelle
  imports Complex_Main
begin

section \<open>Pong Extreme: physics engine, game-room state machine, matchmaking queue\<close>

text \<open>
  A shallow embedding of \<^verbatim>\<open>src/lib/game/constants.ts\<close>, \<^verbatim>\<open>src/lib/game/types.ts\<close>,
  \<^verbatim>\<open>src/lib/game/physics.ts\<close>, \<^verbatim>\<open>src/lib/party/gameLogic.ts\<close> and
  \<^verbatim>\<open>src/lib/party/matchmakerLogic.ts\<close>.

  Conventions of the embedding.
  \<^item> A TypeScript \<^verbatim>\<open>number\<close> that holds a ball coordinate, a velocity or an angle is a
    \<^typ>\<open>real\<close>: arithmetic is exact, without rounding. A paddle position comes from the
    client and is a \<open>number\<close> of the type below, which has \<^verbatim>\<open>NaN\<close> and the two infinities.
    The counters (scores, countdown seconds, tick count, queue positions, timestamps)
    are integers in the program and are \<^typ>\<open>int\<close> or \<^typ>\<open>nat\<close> here.
  \<^item> The string unions \<^verbatim>\<open>GameStatus\<close>, \<^verbatim>\<open>PlayerRole\<close> and \<^verbatim>\<open>'player1' | 'player2'\<close> are
    datatypes; \<^verbatim>\<open>Winner\<close> is an option, \<^verbatim>\<open>null\<close> being \<^term>\<open>None\<close>.
  \<^item> Interfaces are records. \<^verbatim>\<open>GameState\<close> has all the fields of \<^verbatim>\<open>PhysicsState\<close>, which
    has all the fields of \<^verbatim>\<open>BallState\<close>; the records extend each other in the same way, so
    that one selector reads a field of any of them, as a property access does.
  \<^item> \<^verbatim>\<open>Math.random()\<close> and \<^verbatim>\<open>Date.now()\<close> are the only effects of the modelled functions.
    Each value they return during a call is an extra argument of the function, in the
    order the calls are made; \<^verbatim>\<open>Math.random()\<close> returns a number \<open>r\<close> with \<open>0 \<le> r < 1\<close>.
  \<^item> \<^verbatim>\<open>String.prototype.toLowerCase\<close> is a function of the language, not of this program. The
    functions of the matchmaker that call it take it as their first argument.
\<close>

subsection \<open>Constants (constants.ts)\<close>

definition ARENA_WIDTH :: real where "ARENA_WIDTH = 100"
definition ARENA_HEIGHT :: real where "ARENA_HEIGHT = 100"
definition PADDLE_WIDTH :: real where "PADDLE_WIDTH = 3"
definition PADDLE_HEIGHT :: real where "PADDLE_HEIGHT = 20"
definition PADDLE_MARGIN :: real where "PADDLE_MARGIN = 2"
definition BALL_RADIUS :: real where "BALL_RADIUS = 2"
definition BALL_INITIAL_SPEED :: real where "BALL_INITIAL_SPEED = 8 / 10"
definition BALL_MAX_SPEED :: real where "BALL_MAX_SPEED = 2"
definition BALL_SPEED_INCREMENT :: real where "BALL_SPEED_INCREMENT = 5 / 100"
definition WINNING_SCORE :: int where "WINNING_SCORE = 7"
definition COUNTDOWN_SECONDS :: int where "COUNTDOWN_SECONDS = 3"
definition GAME_TICK_RATE :: real where "GAME_TICK_RATE = 1000 / 60"

lemmas constants_defs =
  ARENA_WIDTH_def ARENA_HEIGHT_def PADDLE_WIDTH_def PADDLE_HEIGHT_def PADDLE_MARGIN_def
  BALL_RADIUS_def BALL_INITIAL_SPEED_def BALL_MAX_SPEED_def BALL_SPEED_INCREMENT_def

subsection \<open>Numbers that come from the client\<close>

text \<open>
  The \<^verbatim>\<open>y\<close> of a \<^verbatim>\<open>PADDLE_MOVE\<close> message reaches \<^verbatim>\<open>updatePaddlePosition\<close> as it was parsed, and
  \<^verbatim>\<open>Math.min\<close> converts what is not a number to one: a missing or non-numeric \<^verbatim>\<open>y\<close> is
  \<^verbatim>\<open>NaN\<close> there, and \<^verbatim>\<open>1e999\<close> parses to \<^verbatim>\<open>Infinity\<close>. The paddle fields hold what
  \<^verbatim>\<open>clampPaddlePosition\<close> returns, so they have this type too.
\<close>

datatype number = NaN | NegInfinity | PosInfinity | Num real

text \<open>\<^verbatim>\<open>Math.min\<close> and \<^verbatim>\<open>Math.max\<close> of two numbers: \<^verbatim>\<open>NaN\<close> when one of them is \<^verbatim>\<open>NaN\<close>.\<close>

fun js_min :: "number \<Rightarrow> number \<Rightarrow> number" where
  "js_min NaN b = NaN"
| "js_min a NaN = NaN"
| "js_min NegInfinity b = NegInfinity"
| "js_min a NegInfinity = NegInfinity"
| "js_min PosInfinity b = b"
| "js_min a PosInfinity = a"
| "js_min (Num a) (Num b) = Num (min a b)"

fun js_max :: "number \<Rightarrow> number \<Rightarrow> number" where
  "js_max NaN b = NaN"
| "js_max a NaN = NaN"
| "js_max PosInfinity b = PosInfinity"
| "js_max a PosInfinity = PosInfinity"
| "js_max NegInfinity b = b"
| "js_max a NegInfinity = a"
| "js_max (Num a) (Num b) = Num (max a b)"

text \<open>
  The sum \<^verbatim>\<open>a + c\<close> and the difference \<^verbatim>\<open>a - c\<close> of a number and a finite constant, and the
  comparison \<^verbatim>\<open>a <= b\<close> (\<^verbatim>\<open>b >= a\<close>), which is false when one side is \<^verbatim>\<open>NaN\<close>.
\<close>

fun js_plus :: "number \<Rightarrow> real \<Rightarrow> number" where
  "js_plus (Num a) c = Num (a + c)"
| "js_plus a c = a"

fun js_minus :: "number \<Rightarrow> real \<Rightarrow> number" where
  "js_minus (Num a) c = Num (a - c)"
| "js_minus a c = a"

fun js_le :: "number \<Rightarrow> number \<Rightarrow> bool" where
  "js_le NaN b = False"
| "js_le a NaN = False"
| "js_le NegInfinity b = True"
| "js_le a PosInfinity = True"
| "js_le PosInfinity b = False"
| "js_le a NegInfinity = False"
| "js_le (Num a) (Num b) = (a \<le> b)"

text \<open>The real number that a finite number is.\<close>

fun numValue :: "number \<Rightarrow> real" where
  "numValue (Num a) = a"
| "numValue a = 0"

subsection \<open>Types (types.ts, physics.ts)\<close>

datatype GameStatus = Waiting | Countdown | Playing | Paused | Finished

datatype PlayerRole = Host | Guest

datatype Side = Player1 | Player2

type_synonym Winner = "Side option"

record BallState =
  ballX :: real
  ballY :: real
  ballVelX :: real
  ballVelY :: real

record PhysicsState = BallState +
  paddle1Y :: number
  paddle2Y :: number

record GameState = PhysicsState +
  score1 :: int
  score2 :: int
  status :: GameStatus
  winner :: Winner
  countdown :: int

record PlayerInfo =
  id' :: string
  username :: string
  role :: PlayerRole

subsection \<open>Physics engine (physics.ts)\<close>

definition MAX_BOUNCE_ANGLE :: real where
  "MAX_BOUNCE_ANGLE = pi / 3"

definition updateBallPosition :: "PhysicsState \<Rightarrow> PhysicsState" where
  "updateBallPosition s =
     s\<lparr>ballX := ballX s + ballVelX s, ballY := ballY s + ballVelY s\<rparr>"

text \<open>
  The two tests of \<^verbatim>\<open>checkWallCollision\<close> run one after the other on the local variables,
  the second one on what the first one left.
\<close>

definition checkWallCollision :: "PhysicsState \<Rightarrow> PhysicsState" where
  "checkWallCollision s =
     (let (y1, v1) =
            (if ballY s \<le> BALL_RADIUS then (BALL_RADIUS, \<bar>ballVelY s\<bar>)
             else (ballY s, ballVelY s));
          (y2, v2) =
            (if y1 \<ge> ARENA_HEIGHT - BALL_RADIUS then (ARENA_HEIGHT - BALL_RADIUS, - \<bar>v1\<bar>)
             else (y1, v1))
      in s\<lparr>ballY := y2, ballVelY := v2\<rparr>)"

definition calculateBallAngle :: "real \<Rightarrow> real \<Rightarrow> real" where
  "calculateBallAngle bY paddleY =
     (let relativeHit = (bY - paddleY) / (PADDLE_HEIGHT / 2);
          clampedHit = max (- 1) (min 1 relativeHit)
      in clampedHit * MAX_BOUNCE_ANGLE)"

text \<open>The speed that \<^verbatim>\<open>checkPaddleCollision\<close> computes as \<^verbatim>\<open>currentSpeed\<close>.\<close>

definition speed :: "'a BallState_scheme \<Rightarrow> real" where
  "speed s = sqrt ((ballVelX s)\<^sup>2 + (ballVelY s)\<^sup>2)"

text \<open>
  The conditions of the two \<^verbatim>\<open>if\<close> statements of \<^verbatim>\<open>checkPaddleCollision\<close>. The last two
  comparisons of each are with \<^verbatim>\<open>paddleY - PADDLE_HEIGHT / 2\<close> and \<^verbatim>\<open>paddleY + PADDLE_HEIGHT / 2\<close>,
  which are \<^verbatim>\<open>NaN\<close> or infinite when the paddle is.
\<close>

definition hitsLeftPaddle :: "PhysicsState \<Rightarrow> bool" where
  "hitsLeftPaddle s =
     (let paddle1Top = js_minus (paddle1Y s) (PADDLE_HEIGHT / 2);
          paddle1Bottom = js_plus (paddle1Y s) (PADDLE_HEIGHT / 2)
      in ballVelX s < 0 \<and>
         ballX s - BALL_RADIUS \<le> PADDLE_MARGIN + PADDLE_WIDTH \<and>
         ballX s + BALL_RADIUS \<ge> PADDLE_MARGIN \<and>
         js_le paddle1Top (Num (ballY s)) \<and>
         js_le (Num (ballY s)) paddle1Bottom)"

definition hitsRightPaddle :: "PhysicsState \<Rightarrow> bool" where
  "hitsRightPaddle s =
     (let paddle2Top = js_minus (paddle2Y s) (PADDLE_HEIGHT / 2);
          paddle2Bottom = js_plus (paddle2Y s) (PADDLE_HEIGHT / 2)
      in ballVelX s > 0 \<and>
         ballX s + BALL_RADIUS \<ge> ARENA_WIDTH - PADDLE_MARGIN - PADDLE_WIDTH \<and>
         ballX s - BALL_RADIUS \<le> ARENA_WIDTH - PADDLE_MARGIN \<and>
         js_le paddle2Top (Num (ballY s)) \<and>
         js_le (Num (ballY s)) paddle2Bottom)"

text \<open>
  \<^verbatim>\<open>calculateBallAngle\<close> is called inside the two branches only, where the comparisons have
  held and the paddle is therefore finite (lemma \<open>hit_paddle_finite\<close> below): \<^const>\<open>numValue\<close>
  reads its value.
\<close>

definition checkPaddleCollision :: "PhysicsState \<Rightarrow> PhysicsState" where
  "checkPaddleCollision s =
     (let currentSpeed = speed s;
          leftPaddleX = PADDLE_MARGIN + PADDLE_WIDTH;
          rightPaddleX = ARENA_WIDTH - PADDLE_MARGIN - PADDLE_WIDTH
      in
      if hitsLeftPaddle s then
        (let bounceAngle = calculateBallAngle (ballY s) (numValue (paddle1Y s));
             newSpeed = min (currentSpeed + BALL_SPEED_INCREMENT) BALL_MAX_SPEED;
             newVelX = \<bar>newSpeed * cos bounceAngle\<bar>;
             newVelY = newSpeed * sin bounceAngle
         in s\<lparr>ballX := leftPaddleX + BALL_RADIUS, ballVelX := newVelX, ballVelY := newVelY\<rparr>)
      else if hitsRightPaddle s then
        (let bounceAngle = calculateBallAngle (ballY s) (numValue (paddle2Y s));
             newSpeed = min (currentSpeed + BALL_SPEED_INCREMENT) BALL_MAX_SPEED;
             newVelX = - \<bar>newSpeed * cos bounceAngle\<bar>;
             newVelY = newSpeed * sin bounceAngle
         in s\<lparr>ballX := rightPaddleX - BALL_RADIUS, ballVelX := newVelX, ballVelY := newVelY\<rparr>)
      else s)"

definition checkScoring :: "PhysicsState \<Rightarrow> Side option" where
  "checkScoring s =
     (if ballX s < - BALL_RADIUS then Some Player2
      else if ballX s > ARENA_WIDTH + BALL_RADIUS then Some Player1
      else None)"

definition clampPaddlePosition :: "number \<Rightarrow> number" where
  "clampPaddlePosition y =
     (let minY = PADDLE_HEIGHT / 2;
          maxY = ARENA_HEIGHT - PADDLE_HEIGHT / 2
      in js_max (Num minY) (js_min (Num maxY) y))"

definition resetBall :: BallState where
  "resetBall = \<lparr>ballX = 50, ballY = 50, ballVelX = 0, ballVelY = 0\<rparr>"

text \<open>\<open>r\<close> is the value of the call of \<^verbatim>\<open>Math.random()\<close> in \<^verbatim>\<open>startBall\<close>.\<close>

definition startBall :: "Side \<Rightarrow> real \<Rightarrow> BallState" where
  "startBall towardsPlayer r =
     (let angle = (r - 1 / 2) * (pi / 2);
          direction = (if towardsPlayer = Player1 then - 1 else 1)
      in \<lparr>ballX = 50, ballY = 50,
          ballVelX = direction * BALL_INITIAL_SPEED * cos angle,
          ballVelY = BALL_INITIAL_SPEED * sin angle\<rparr>)"

record PhysicsTickResult =
  state :: PhysicsState
  scored :: "Side option"

definition physicsTick :: "PhysicsState \<Rightarrow> PhysicsTickResult" where
  "physicsTick s =
     (let newState = checkPaddleCollision (checkWallCollision (updateBallPosition s))
      in \<lparr>state = newState, scored = checkScoring newState\<rparr>)"

subsection \<open>Game-room state machine (gameLogic.ts)\<close>

record GameServerState =
  roomId :: string
  players :: "PlayerInfo list"
  gameState :: GameState
  tickCount :: int

definition createInitialGameState :: GameState where
  "createInitialGameState =
     \<lparr>ballX = 50, ballY = 50, ballVelX = 0, ballVelY = 0, paddle1Y = Num 50,
      paddle2Y = Num 50, score1 = 0, score2 = 0, status = Waiting, winner = None, countdown = 0\<rparr>"

definition createGameServerState :: "string \<Rightarrow> GameServerState" where
  "createGameServerState rid =
     \<lparr>roomId = rid, players = [], gameState = createInitialGameState, tickCount = 0\<rparr>"

definition addPlayer :: "GameServerState \<Rightarrow> string \<Rightarrow> string \<Rightarrow> GameServerState" where
  "addPlayer st connectionId name =
     (if length (players st) \<ge> 2 then st
      else
        (let r = (if length (players st) = 0 then Host else Guest);
             player = \<lparr>id' = connectionId, username = name, role = r\<rparr>
         in st\<lparr>players := players st @ [player]\<rparr>))"

text \<open>
  \<^verbatim>\<open>newPlayers[0]\<close> is \<^verbatim>\<open>undefined\<close> on an empty array, and \<^verbatim>\<open>remainingPlayer?.role\<close> is then
  \<^verbatim>\<open>undefined\<close> too: the option \<open>remainingPlayer\<close> and \<^const>\<open>map_option\<close> say so.
\<close>

definition removePlayer :: "GameServerState \<Rightarrow> string \<Rightarrow> GameServerState" where
  "removePlayer st connectionId =
     (case find (\<lambda>p. id' p = connectionId) (players st) of
        None \<Rightarrow> st
      | Some player \<Rightarrow>
          (let newPlayers = filter (\<lambda>p. id' p \<noteq> connectionId) (players st);
               newGameState =
                 (if status (gameState st) = Playing \<or> status (gameState st) = Countdown then
                    (let remainingPlayer = (case newPlayers of [] \<Rightarrow> None | p # _ \<Rightarrow> Some p);
                         winner' = (if map_option role remainingPlayer = Some Host
                                    then Player1 else Player2)
                     in (gameState st)\<lparr>status := Finished, winner := Some winner'\<rparr>)
                  else gameState st)
           in st\<lparr>players := newPlayers, gameState := newGameState\<rparr>))"

definition getPlayer :: "GameServerState \<Rightarrow> string \<Rightarrow> PlayerInfo option" where
  "getPlayer st connectionId = find (\<lambda>p. id' p = connectionId) (players st)"

definition updatePaddlePosition :: "GameServerState \<Rightarrow> string \<Rightarrow> number \<Rightarrow> GameServerState" where
  "updatePaddlePosition st connectionId y =
     (case getPlayer st connectionId of
        None \<Rightarrow> st
      | Some player \<Rightarrow>
          (let clampedY = clampPaddlePosition y
           in if role player = Host
              then st\<lparr>gameState := (gameState st)\<lparr>paddle1Y := clampedY\<rparr>\<rparr>
              else st\<lparr>gameState := (gameState st)\<lparr>paddle2Y := clampedY\<rparr>\<rparr>))"

definition startCountdown :: "GameServerState \<Rightarrow> GameServerState" where
  "startCountdown st =
     (if length (players st) < 2 then st
      else st\<lparr>gameState := (gameState st)\<lparr>status := Countdown, countdown := COUNTDOWN_SECONDS\<rparr>\<rparr>)"

text \<open>The object spread \<^verbatim>\<open>{...gameState, ...ballState}\<close>: the four ball fields are overwritten.\<close>

definition spreadBall :: "GameState \<Rightarrow> BallState \<Rightarrow> GameState" where
  "spreadBall gs b =
     gs\<lparr>ballX := ballX b, ballY := ballY b, ballVelX := ballVelX b, ballVelY := ballVelY b\<rparr>"

text \<open>
  \<^verbatim>\<open>startGame\<close> calls \<^verbatim>\<open>Math.random()\<close> twice: \<open>r1\<close> chooses the side, \<open>r2\<close> is the call inside
  \<^verbatim>\<open>startBall\<close>. The key \<^verbatim>\<open>countdown: 0\<close> comes last in the object literal.
\<close>

definition startGame :: "GameServerState \<Rightarrow> real \<Rightarrow> real \<Rightarrow> GameServerState" where
  "startGame st r1 r2 =
     (let serveToPlayer = (if r1 < 1 / 2 then Player1 else Player2);
          ballState = startBall serveToPlayer r2
      in st\<lparr>gameState :=
              (spreadBall ((gameState st)\<lparr>status := Playing\<rparr>) ballState)\<lparr>countdown := 0\<rparr>\<rparr>)"

text \<open>
  \<open>r\<close> is the value of \<^verbatim>\<open>Math.random()\<close> inside \<^verbatim>\<open>startBall(scorer)\<close>, which is called only
  when the status is not \<^verbatim>\<open>'finished'\<close>. In the object literal \<^verbatim>\<open>...ballState\<close> (the reset
  ball, or nothing) comes before the spread of \<^verbatim>\<open>startBall(scorer)\<close> (or of nothing).
\<close>

definition handleScoring :: "GameServerState \<Rightarrow> Side \<Rightarrow> real \<Rightarrow> GameServerState" where
  "handleScoring st scorer r =
     (let gs = gameState st;
          s1 = (if scorer = Player1 then score1 gs + 1 else score1 gs);
          s2 = (if scorer = Player1 then score2 gs else score2 gs + 1);
          (winner', status') =
            (if s1 \<ge> WINNING_SCORE then (Some Player1, Finished)
             else if s2 \<ge> WINNING_SCORE then (Some Player2, Finished)
             else (None, status gs));
          gs1 = gs\<lparr>score1 := s1, score2 := s2, winner := winner', status := status'\<rparr>;
          gs2 = (if status' = Finished then gs1 else spreadBall gs1 resetBall);
          gs3 = (if status' \<noteq> Finished then spreadBall gs2 (startBall scorer r) else gs2)
      in st\<lparr>gameState := gs3\<rparr>)"

text \<open>
  The remainder operator \<^verbatim>\<open>%\<close> of JavaScript on integers: the result has the sign of the
  dividend. \<^verbatim>\<open>Math.round\<close> is \<^const>\<open>round\<close> (halves go up).
\<close>

definition js_rem :: "int \<Rightarrow> int \<Rightarrow> int" where
  "js_rem a b = sgn a * (\<bar>a\<bar> mod \<bar>b\<bar>)"

text \<open>
  One call of \<^verbatim>\<open>tick\<close> calls \<^verbatim>\<open>Math.random()\<close> twice at most: in \<^verbatim>\<open>startGame\<close> (\<open>r1\<close>, \<open>r2\<close>) on
  the countdown branch, or once in \<^verbatim>\<open>handleScoring\<close> (\<open>r1\<close>) on the playing branch.
\<close>

definition tick :: "GameServerState \<Rightarrow> real \<Rightarrow> real \<Rightarrow> GameServerState" where
  "tick st r1 r2 =
     (let gs = gameState st in
      if status gs = Countdown then
        (let newTickCount = tickCount st + 1;
             ticksPerSecond = round (1000 / GAME_TICK_RATE);
             newCountdown =
               (if js_rem newTickCount ticksPerSecond = 0 then max 0 (countdown gs - 1)
                else countdown gs)
         in if newCountdown = 0 \<and> countdown gs > 0
            then startGame (st\<lparr>tickCount := newTickCount\<rparr>) r1 r2
            else st\<lparr>tickCount := newTickCount, gameState := gs\<lparr>countdown := newCountdown\<rparr>\<rparr>)
      else if status gs \<noteq> Playing then st
      else
        (let physicsState =
               \<lparr>ballX = ballX gs, ballY = ballY gs, ballVelX = ballVelX gs,
                ballVelY = ballVelY gs, paddle1Y = paddle1Y gs, paddle2Y = paddle2Y gs\<rparr>;
             res = physicsTick physicsState;
             newPhysicsState = state res;
             newState =
               st\<lparr>tickCount := tickCount st + 1,
                  gameState :=
                    gs\<lparr>ballX := ballX newPhysicsState, ballY := ballY newPhysicsState,
                       ballVelX := ballVelX newPhysicsState,
                       ballVelY := ballVelY newPhysicsState\<rparr>\<rparr>
         in case scored res of
              None \<Rightarrow> newState
            | Some sc \<Rightarrow> handleScoring newState sc r1))"

definition isReadyToStart :: "GameServerState \<Rightarrow> bool" where
  "isReadyToStart st = (length (players st) = 2 \<and> status (gameState st) = Waiting)"

subsection \<open>Matchmaking queue (matchmakerLogic.ts)\<close>

record QueuedPlayer =
  connectionId :: string
  username :: string
  joinedAt :: int

record MatchmakerState =
  queue :: "QueuedPlayer list"
  activeUsernames :: "string set"

record MatchResult =
  player1 :: QueuedPlayer
  player2 :: QueuedPlayer
  gameRoomId :: string

datatype JoinError = USERNAME_TAKEN | INVALID_USERNAME

record JoinQueueResult =
  success :: bool
  state :: MatchmakerState
  position :: "nat option"
  error :: "JoinError option"

record FindMatchResult =
  state :: MatchmakerState
  match :: "MatchResult option"

text \<open>
  \<^verbatim>\<open>String.prototype.toLowerCase\<close> is the argument \<open>toLowerCase\<close> of the functions below, so
  that what is proved of them holds of every name, whatever its characters. What the
  language says of it on ASCII strings is \<open>lowersAscii\<close>: a string whose characters are all
  below 128 is mapped character by character, a capital letter \<open>A\<close> to \<open>Z\<close> (codes 65 to 90)
  to the small one (32 higher), every other character to itself.
\<close>

definition lowerChar :: "char \<Rightarrow> char" where
  "lowerChar c =
     (let n = (of_char c :: nat)
      in if 65 \<le> n \<and> n \<le> 90 then char_of (n + 32) else c)"

definition asciiLowerCase :: "string \<Rightarrow> string" where
  "asciiLowerCase s = map lowerChar s"

definition isAscii :: "string \<Rightarrow> bool" where
  "isAscii s = list_all (\<lambda>c. (of_char c :: nat) < 128) s"

definition lowersAscii :: "(string \<Rightarrow> string) \<Rightarrow> bool" where
  "lowersAscii toLowerCase = (\<forall>s. isAscii s \<longrightarrow> toLowerCase s = asciiLowerCase s)"

text \<open>
  Two names differ in case only when they have the same length and, position by position,
  the same character or the capital and the small form of one letter.
\<close>

definition upperLetters :: string where
  "upperLetters = ''ABCDEFGHIJKLMNOPQRSTUVWXYZ''"

definition lowerLetters :: string where
  "lowerLetters = ''abcdefghijklmnopqrstuvwxyz''"

definition sameLetter :: "char \<Rightarrow> char \<Rightarrow> bool" where
  "sameLetter c d =
     (c = d \<or> (c, d) \<in> set (zip upperLetters lowerLetters) \<or>
      (d, c) \<in> set (zip upperLetters lowerLetters))"

definition caseVariant :: "string \<Rightarrow> string \<Rightarrow> bool" where
  "caseVariant s t = list_all2 sameLetter s t"

definition createMatchmakerState :: MatchmakerState where
  "createMatchmakerState = \<lparr>queue = [], activeUsernames = {}\<rparr>"

definition isUsernameTaken :: "(string \<Rightarrow> string) \<Rightarrow> MatchmakerState \<Rightarrow> string \<Rightarrow> bool" where
  "isUsernameTaken toLowerCase st name = (toLowerCase name \<in> activeUsernames st)"

text \<open>\<open>now\<close> is the value of \<^verbatim>\<open>Date.now()\<close>. A key the result leaves out is \<^term>\<open>None\<close>.\<close>

definition joinQueue ::
  "(string \<Rightarrow> string) \<Rightarrow> MatchmakerState \<Rightarrow> string \<Rightarrow> string \<Rightarrow> int \<Rightarrow> JoinQueueResult" where
  "joinQueue toLowerCase st cid name now =
     (let normalizedUsername = toLowerCase name in
      if normalizedUsername \<in> activeUsernames st then
        \<lparr>success = False, state = st, position = None, error = Some USERNAME_TAKEN\<rparr>
      else
        (let player = \<lparr>connectionId = cid, username = name, joinedAt = now\<rparr>;
             newQueue = queue st @ [player];
             newUsernames = insert normalizedUsername (activeUsernames st)
         in \<lparr>success = True,
             state = \<lparr>queue = newQueue, activeUsernames = newUsernames\<rparr>,
             position = Some (length newQueue), error = None\<rparr>))"

definition leaveQueue :: "(string \<Rightarrow> string) \<Rightarrow> MatchmakerState \<Rightarrow> string \<Rightarrow> MatchmakerState" where
  "leaveQueue toLowerCase st cid =
     (case find (\<lambda>p. connectionId p = cid) (queue st) of
        None \<Rightarrow> st
      | Some player \<Rightarrow>
          \<lparr>queue = filter (\<lambda>p. connectionId p \<noteq> cid) (queue st),
           activeUsernames = activeUsernames st - {toLowerCase (QueuedPlayer.username player)}\<rparr>)"

definition freeUsername :: "(string \<Rightarrow> string) \<Rightarrow> MatchmakerState \<Rightarrow> string \<Rightarrow> MatchmakerState" where
  "freeUsername toLowerCase st name =
     st\<lparr>activeUsernames := activeUsernames st - {toLowerCase name}\<rparr>"

text \<open>
  \<^verbatim>\<open>generateGameRoomId\<close> builds the room id from \<^verbatim>\<open>Date.now()\<close> and \<^verbatim>\<open>Math.random()\<close>; the id it
  returns is the argument \<open>rid\<close>. The destructuring \<^verbatim>\<open>[player1, player2, ...remainingQueue]\<close>
  reads the elements 0 and 1 and the rest from index 2 on; it is reached with two players
  at least.
\<close>

definition findMatch :: "MatchmakerState \<Rightarrow> string \<Rightarrow> FindMatchResult" where
  "findMatch st rid =
     (if length (queue st) < 2 then \<lparr>state = st, match = None\<rparr>
      else
        (let p1 = queue st ! 0;
             p2 = queue st ! 1;
             remainingQueue = drop 2 (queue st)
         in \<lparr>state = \<lparr>queue = remainingQueue, activeUsernames = activeUsernames st\<rparr>,
             match = Some \<lparr>player1 = p1, player2 = p2, gameRoomId = rid\<rparr>\<rparr>))"

text \<open>\<^verbatim>\<open>Array.prototype.findIndex\<close>: the first index whose element passes the test, or \<open>-1\<close>.\<close>

fun findIndex :: "('a \<Rightarrow> bool) \<Rightarrow> 'a list \<Rightarrow> int" where
  "findIndex P [] = - 1"
| "findIndex P (x # xs) =
     (if P x then 0 else (let i = findIndex P xs in if i = - 1 then - 1 else i + 1))"

definition getQueuePosition :: "MatchmakerState \<Rightarrow> string \<Rightarrow> int" where
  "getQueuePosition st cid =
     (let index = findIndex (\<lambda>p. connectionId p = cid) (queue st)
      in if index = - 1 then - 1 else index + 1)"

subsection \<open>Concrete states used in the examples\<close>



definition oneHost :: GameServerState where
  "oneHost = addPlayer (createGameServerState ''test-room-123'') ''conn-1'' ''Player1''"

definition twoPlayers :: GameServerState where
  "twoPlayers = addPlayer oneHost ''conn-2'' ''Player2''"

definition playingRoom :: GameServerState where
  "playingRoom = twoPlayers\<lparr>gameState := (gameState twoPlayers)\<lparr>status := Playing\<rparr>\<rparr>"

definition soloPlaying :: GameServerState where
  "soloPlaying = oneHost\<lparr>gameState := (gameState oneHost)\<lparr>status := Playing\<rparr>\<rparr>"

definition finishedRoom :: GameServerState where
  "finishedRoom =
     twoPlayers\<lparr>gameState := (gameState twoPlayers)\<lparr>status := Finished, ballX := 30, ballY := 40\<rparr>\<rparr>"

definition leadRoom :: GameServerState where
  "leadRoom =
     twoPlayers\<lparr>gameState :=
       (gameState twoPlayers)\<lparr>status := Playing, score1 := 7, ballX := 30, ballY := 40\<rparr>\<rparr>"

definition aheadRoom :: GameServerState where
  "aheadRoom =
     twoPlayers\<lparr>gameState := (gameState twoPlayers)\<lparr>status := Playing, score1 := 7, score2 := 6\<rparr>\<rparr>"

definition matchPoint :: GameServerState where
  "matchPoint =
     twoPlayers\<lparr>gameState :=
       (gameState twoPlayers)\<lparr>status := Playing, score1 := 6, score2 := 6, ballX := 103,
         ballY := 40, ballVelX := 1, ballVelY := 0\<rparr>\<rparr>"

definition midGame :: GameServerState where
  "midGame =
     twoPlayers\<lparr>gameState :=
       (gameState twoPlayers)\<lparr>status := Playing, score1 := 2, score2 := 3, ballX := 103,
         ballY := 40, ballVelX := 1, ballVelY := 0\<rparr>\<rparr>"

definition queuedA :: QueuedPlayer where
  "queuedA = \<lparr>connectionId = ''conn-a'', username = ''Alice'', joinedAt = 1000\<rparr>"

definition queuedB :: QueuedPlayer where
  "queuedB = \<lparr>connectionId = ''conn-b'', username = ''Bob'', joinedAt = 1001\<rparr>"

definition queuedC :: QueuedPlayer where
  "queuedC = \<lparr>connectionId = ''conn-c'', username = ''Carol'', joinedAt = 1002\<rparr>"

definition queuedD :: QueuedPlayer where
  "queuedD = \<lparr>connectionId = ''conn-d'', username = ''Dave'', joinedAt = 1003\<rparr>"

definition fourQueued :: MatchmakerState where
  "fourQueued =
     \<lparr>queue = [queuedA, queuedB, queuedC, queuedD],
      activeUsernames = {''alice'', ''bob'', ''carol'', ''dave''}\<rparr>"

definition onePlayer1 :: MatchmakerState where
  "onePlayer1 =
     JoinQueueResult.state
       (joinQueue asciiLowerCase createMatchmakerState ''conn-1'' ''player1'' 1000)"

subsection \<open>Properties of the physics engine\<close>

lemma paddles_updateBallPosition:
  "paddle1Y (updateBallPosition s) = paddle1Y s \<and> paddle2Y (updateBallPosition s) = paddle2Y s"
  by (simp add: updateBallPosition_def)

lemma paddles_checkWallCollision:
  "paddle1Y (checkWallCollision s) = paddle1Y s \<and> paddle2Y (checkWallCollision s) = paddle2Y s"
  by (simp add: checkWallCollision_def Let_def split: prod.splits)

lemma paddles_checkPaddleCollision:
  "paddle1Y (checkPaddleCollision s) = paddle1Y s \<and> paddle2Y (checkPaddleCollision s) = paddle2Y s"
  by (simp add: checkPaddleCollision_def Let_def)

text \<open>
  Claim C10. For every physics state, \<^verbatim>\<open>physicsTick\<close> returns a state whose \<^verbatim>\<open>paddle1Y\<close> and
  \<^verbatim>\<open>paddle2Y\<close> are exactly the input's: the position update, the wall collision, the paddle
  collision and the scoring check read the paddles and never move them.
\<close>

theorem physicsTick_keeps_paddles:
  "paddle1Y (PhysicsTickResult.state (physicsTick s)) = paddle1Y s \<and>
   paddle2Y (PhysicsTickResult.state (physicsTick s)) = paddle2Y s"
  by (simp add: physicsTick_def Let_def paddles_updateBallPosition paddles_checkWallCollision
      paddles_checkPaddleCollision)

lemma js_le_finite_between:
  "js_le (js_minus p c) (Num y) \<Longrightarrow> js_le (Num y) (js_plus p c) \<Longrightarrow> \<exists>r. p = Num r"
  by (cases p) simp_all

lemma hit_paddle_finite:
  "(hitsLeftPaddle s \<longrightarrow> (\<exists>r. paddle1Y s = Num r)) \<and>
   (hitsRightPaddle s \<longrightarrow> (\<exists>r. paddle2Y s = Num r))"
  by (auto simp: hitsLeftPaddle_def hitsRightPaddle_def Let_def dest: js_le_finite_between)














subsection \<open>Properties of the paddle functions\<close>

lemma clampPaddlePosition_cases:
  "clampPaddlePosition NaN = NaN \<and>
   clampPaddlePosition NegInfinity = Num 10 \<and>
   clampPaddlePosition PosInfinity = Num 90 \<and>
   clampPaddlePosition (Num r) = Num (max 10 (min 90 r))"
  by (simp add: clampPaddlePosition_def Let_def constants_defs)

lemma clampPaddlePosition_range:
  "y \<noteq> NaN \<Longrightarrow> \<exists>r. clampPaddlePosition y = Num r \<and> 10 \<le> r \<and> r \<le> 90"
  by (cases y) (simp_all add: clampPaddlePosition_cases)

lemma clampPaddlePosition_id:
  "10 \<le> r \<Longrightarrow> r \<le> 90 \<Longrightarrow> clampPaddlePosition (Num r) = Num r"
  by (simp add: clampPaddlePosition_cases)

lemma find_None_id: "find (\<lambda>p. id' p = c) ps = None \<longleftrightarrow> c \<notin> id' ` set ps"
  by (auto simp: find_None_iff)

text \<open>
  Which paddle \<^verbatim>\<open>updatePaddlePosition\<close> writes: none when the connection matches no player,
  \<^verbatim>\<open>paddle1Y\<close> when the role of the player (the first one of the list with this id) is host,
  \<^verbatim>\<open>paddle2Y\<close> otherwise; the value written is \<^verbatim>\<open>clampPaddlePosition(y)\<close>.
\<close>

lemma updatePaddlePosition_writes:
  "(c \<notin> id' ` set (players st) \<longrightarrow> updatePaddlePosition st c y = st) \<and>
   (\<forall>p. find (\<lambda>p. id' p = c) (players st) = Some p \<longrightarrow>
      updatePaddlePosition st c y =
        (if role p = Host
         then st\<lparr>gameState := (gameState st)\<lparr>paddle1Y := clampPaddlePosition y\<rparr>\<rparr>
         else st\<lparr>gameState := (gameState st)\<lparr>paddle2Y := clampPaddlePosition y\<rparr>\<rparr>))"
proof (intro conjI allI impI)
  assume "c \<notin> id' ` set (players st)"
  then have "find (\<lambda>p. id' p = c) (players st) = None"
    by (simp add: find_None_id)
  then show "updatePaddlePosition st c y = st"
    by (simp add: updatePaddlePosition_def getPlayer_def)
next
  fix p
  assume "find (\<lambda>p. id' p = c) (players st) = Some p"
  then show "updatePaddlePosition st c y =
        (if role p = Host
         then st\<lparr>gameState := (gameState st)\<lparr>paddle1Y := clampPaddlePosition y\<rparr>\<rparr>
         else st\<lparr>gameState := (gameState st)\<lparr>paddle2Y := clampPaddlePosition y\<rparr>\<rparr>)"
    by (simp add: updatePaddlePosition_def getPlayer_def Let_def)
qed

lemma players_twoPlayers:
  "players twoPlayers =
     [\<lparr>id' = ''conn-1'', username = ''Player1'', role = Host\<rparr>,
      \<lparr>id' = ''conn-2'', username = ''Player2'', role = Guest\<rparr>]"
  by (simp add: twoPlayers_def oneHost_def addPlayer_def createGameServerState_def Let_def)

lemma updatePaddlePosition_examples:
  "updatePaddlePosition twoPlayers ''conn-3'' (Num 30) = twoPlayers \<and>
   updatePaddlePosition twoPlayers ''conn-1'' (Num 30) =
     twoPlayers\<lparr>gameState := (gameState twoPlayers)\<lparr>paddle1Y := Num 30\<rparr>\<rparr> \<and>
   updatePaddlePosition twoPlayers ''conn-2'' (Num 130) =
     twoPlayers\<lparr>gameState := (gameState twoPlayers)\<lparr>paddle2Y := Num 90\<rparr>\<rparr> \<and>
   updatePaddlePosition twoPlayers ''conn-2'' PosInfinity =
     twoPlayers\<lparr>gameState := (gameState twoPlayers)\<lparr>paddle2Y := Num 90\<rparr>\<rparr>"
  by (simp add: updatePaddlePosition_def getPlayer_def players_twoPlayers Let_def
      clampPaddlePosition_cases)

text \<open>
  Claim C8, at the input where the code departs from it. The claim has
  \<^verbatim>\<open>clampPaddlePosition(y)\<close> always in \<open>[10, 90]\<close>, and the comment of the function says that it
  clamps the paddle position to the valid range within the arena. It does for every \<open>y\<close>
  that is not \<^verbatim>\<open>NaN\<close> (lemma \<open>clampPaddlePosition_range\<close>). For \<^verbatim>\<open>NaN\<close>, which is what a
  \<^verbatim>\<open>PADDLE_MOVE\<close> message without a numeric \<^verbatim>\<open>y\<close> gives, \<^verbatim>\<open>Math.min\<close> and \<^verbatim>\<open>Math.max\<close> return
  \<^verbatim>\<open>NaN\<close>: the host's paddle becomes \<^verbatim>\<open>NaN\<close>, which is neither at least 10 nor at most 90.
\<close>

theorem updatePaddlePosition_NaN:
  "clampPaddlePosition NaN = NaN \<and>
   updatePaddlePosition twoPlayers ''conn-1'' NaN =
     twoPlayers\<lparr>gameState := (gameState twoPlayers)\<lparr>paddle1Y := NaN\<rparr>\<rparr> \<and>
   \<not> js_le (Num 10) (paddle1Y (gameState (updatePaddlePosition twoPlayers ''conn-1'' NaN))) \<and>
   \<not> js_le (paddle1Y (gameState (updatePaddlePosition twoPlayers ''conn-1'' NaN))) (Num 90)"
  by (simp add: updatePaddlePosition_def getPlayer_def players_twoPlayers Let_def
      clampPaddlePosition_cases)

lemma clamp_unit_abs: "\<bar>max (- 1) (min 1 (x::real))\<bar> \<le> 1"
  by linarith

text \<open>
  Claim C9. \<^verbatim>\<open>calculateBallAngle\<close> is odd about the paddle centre:
  \<open>calculateBallAngle (paddleY - d) paddleY = - calculateBallAngle (paddleY + d) paddleY\<close>
  for every \<open>paddleY\<close> and \<open>d\<close>; its absolute value is at most \<open>pi / 3\<close> (60 degrees); and it
  is monotonically non-decreasing in the hit offset \<open>ballY - paddleY\<close>.
\<close>

theorem calculateBallAngle_spec:
  "calculateBallAngle (paddleY - d) paddleY = - calculateBallAngle (paddleY + d) paddleY \<and>
   \<bar>calculateBallAngle bY paddleY\<bar> \<le> pi / 3 \<and>
   (b1 - p1 \<le> b2 - p2 \<longrightarrow> calculateBallAngle b1 p1 \<le> calculateBallAngle b2 p2)"
proof (intro conjI impI)
  show "calculateBallAngle (paddleY - d) paddleY = - calculateBallAngle (paddleY + d) paddleY"
    by (simp add: calculateBallAngle_def Let_def PADDLE_HEIGHT_def max_def min_def)
next
  have "\<bar>max (- 1) (min 1 ((bY - paddleY) / (PADDLE_HEIGHT / 2)))\<bar> \<le> (1::real)"
    by (rule clamp_unit_abs)
  then have "\<bar>max (- 1) (min 1 ((bY - paddleY) / (PADDLE_HEIGHT / 2)))\<bar> * (pi / 3) \<le> 1 * (pi / 3)"
    by (intro mult_right_mono) simp_all
  then show "\<bar>calculateBallAngle bY paddleY\<bar> \<le> pi / 3"
    by (simp add: calculateBallAngle_def Let_def MAX_BOUNCE_ANGLE_def abs_mult)
next
  assume "b1 - p1 \<le> b2 - p2"
  then have "(b1 - p1) / (PADDLE_HEIGHT / 2) \<le> (b2 - p2) / (PADDLE_HEIGHT / 2)"
    by (simp add: PADDLE_HEIGHT_def)
  then have "max (- 1) (min 1 ((b1 - p1) / (PADDLE_HEIGHT / 2)))
      \<le> max (- 1) (min 1 ((b2 - p2) / (PADDLE_HEIGHT / 2)))"
    by (simp add: max_def min_def)
  then show "calculateBallAngle b1 p1 \<le> calculateBallAngle b2 p2"
    by (simp add: calculateBallAngle_def Let_def MAX_BOUNCE_ANGLE_def)
qed

text \<open>
  Hits 5 above and 5 below the centre of a paddle at 50 give the angles \<open>- pi / 6\<close> and
  \<open>pi / 6\<close>; a hit far below the paddle gives \<open>pi / 3\<close>.
\<close>

theorem calculateBallAngle_spec_witness:
  "calculateBallAngle 45 50 = - calculateBallAngle 55 50 \<and>
   \<bar>calculateBallAngle 75 50\<bar> \<le> pi / 3 \<and>
   (45 :: real) - 50 \<le> 55 - 50 \<and> calculateBallAngle 45 50 \<le> calculateBallAngle 55 50 \<and>
   calculateBallAngle 55 50 = pi / 6 \<and> calculateBallAngle 75 50 = pi / 3"
  using calculateBallAngle_spec [of 50 5 75 45 50 55 50]
  by (simp add: calculateBallAngle_def Let_def PADDLE_HEIGHT_def MAX_BOUNCE_ANGLE_def)

subsection \<open>Properties of the game-room state machine\<close>

lemma gameState_twoPlayers: "gameState twoPlayers = createInitialGameState"
  by (simp add: twoPlayers_def oneHost_def addPlayer_def createGameServerState_def Let_def)

lemma find_Some_id: "c \<in> id' ` set ps \<Longrightarrow> \<exists>p. find (\<lambda>p. id' p = c) ps = Some p"
  by (cases "find (\<lambda>p. id' p = c) ps") (simp_all add: find_None_id)

text \<open>
  What \<^verbatim>\<open>removePlayer\<close> does while a player remains. When the connection matches no player the
  state is returned unchanged; when it matches a player and the status was \<^verbatim>\<open>'countdown'\<close> or
  \<^verbatim>\<open>'playing'\<close>, the players of that id are removed, the status becomes \<^verbatim>\<open>'finished'\<close> and the
  winner is the side of the first remaining player: \<^verbatim>\<open>'player1'\<close> for the host, \<^verbatim>\<open>'player2'\<close>
  for the guest.
\<close>

lemma removePlayer_remaining:
  "(c \<notin> id' ` set (players st) \<longrightarrow> removePlayer st c = st) \<and>
   (c \<in> id' ` set (players st) \<and>
    (status (gameState st) = Countdown \<or> status (gameState st) = Playing) \<longrightarrow>
      players (removePlayer st c) = filter (\<lambda>p. id' p \<noteq> c) (players st) \<and>
      status (gameState (removePlayer st c)) = Finished \<and>
      (\<forall>p rest. players (removePlayer st c) = p # rest \<longrightarrow>
         winner (gameState (removePlayer st c)) =
           Some (if role p = Host then Player1 else Player2)))"
proof (intro conjI impI)
  assume "c \<notin> id' ` set (players st)"
  then have "find (\<lambda>p. id' p = c) (players st) = None"
    by (simp add: find_None_id)
  then show "removePlayer st c = st"
    by (simp add: removePlayer_def)
next
  assume a: "c \<in> id' ` set (players st) \<and>
    (status (gameState st) = Countdown \<or> status (gameState st) = Playing)"
  then obtain q where q: "find (\<lambda>p. id' p = c) (players st) = Some q"
    using find_Some_id by blast
  from a have s: "status (gameState st) = Playing \<or> status (gameState st) = Countdown"
    by blast
  show "players (removePlayer st c) = filter (\<lambda>p. id' p \<noteq> c) (players st)"
    using q by (simp add: removePlayer_def Let_def)
  show "status (gameState (removePlayer st c)) = Finished"
    using q s by (simp add: removePlayer_def Let_def)
  show "\<forall>p rest. players (removePlayer st c) = p # rest \<longrightarrow>
         winner (gameState (removePlayer st c)) =
           Some (if role p = Host then Player1 else Player2)"
    using q s by (auto simp: removePlayer_def Let_def)
qed

text \<open>
  A room of two players in play: an unknown connection changes nothing; when the host
  leaves the guest's side wins, when the guest leaves the host's side wins.
\<close>

lemma removePlayer_remaining_examples:
  "removePlayer playingRoom ''conn-3'' = playingRoom \<and>
   players (removePlayer playingRoom ''conn-1'') =
     [\<lparr>id' = ''conn-2'', username = ''Player2'', role = Guest\<rparr>] \<and>
   status (gameState (removePlayer playingRoom ''conn-1'')) = Finished \<and>
   winner (gameState (removePlayer playingRoom ''conn-1'')) = Some Player2 \<and>
   players (removePlayer playingRoom ''conn-2'') =
     [\<lparr>id' = ''conn-1'', username = ''Player1'', role = Host\<rparr>] \<and>
   winner (gameState (removePlayer playingRoom ''conn-2'')) = Some Player1"
proof -
  have p: "players playingRoom =
     [\<lparr>id' = ''conn-1'', username = ''Player1'', role = Host\<rparr>,
      \<lparr>id' = ''conn-2'', username = ''Player2'', role = Guest\<rparr>]"
    by (simp add: playingRoom_def players_twoPlayers)
  have s: "status (gameState playingRoom) = Playing"
    by (simp add: playingRoom_def)
  show ?thesis
    using removePlayer_remaining [of "''conn-3''" playingRoom]
      removePlayer_remaining [of "''conn-1''" playingRoom]
      removePlayer_remaining [of "''conn-2''" playingRoom] p s
    by simp
qed

text \<open>
  Claim C1, at the input where the code departs from it. The claim has the winner left
  unset when no player remains after the removal, and the comment in the code says that
  the winner is the player who stayed. A room in play whose only player, the host, leaves:
  \<^verbatim>\<open>newPlayers[0]\<close> is \<^verbatim>\<open>undefined\<close>, \<^verbatim>\<open>remainingPlayer?.role\<close> is not \<^verbatim>\<open>'host'\<close>, and the
  conditional expression sets the winner, unset before, to \<^verbatim>\<open>'player2'\<close>, with nobody left
  in the room.
\<close>

theorem removePlayer_empty_room:
  "players (removePlayer soloPlaying ''conn-1'') = [] \<and>
   status (gameState (removePlayer soloPlaying ''conn-1'')) = Finished \<and>
   winner (gameState soloPlaying) = None \<and>
   winner (gameState (removePlayer soloPlaying ''conn-1'')) = Some Player2"
  by (simp add: soloPlaying_def oneHost_def addPlayer_def createGameServerState_def
      createInitialGameState_def removePlayer_def Let_def)

text \<open>
  Claim C7, as the code has it. For every game-room state whose status is \<^verbatim>\<open>'waiting'\<close>,
  \<^verbatim>\<open>'paused'\<close> or \<^verbatim>\<open>'finished'\<close>, \<^verbatim>\<open>tick\<close> returns the state itself: every field is unchanged,
  the tick counter too.
\<close>

theorem tick_idle:
  "status (gameState st) = Waiting \<or> status (gameState st) = Paused \<or>
   status (gameState st) = Finished \<Longrightarrow> tick st r1 r2 = st"
  by (auto simp: tick_def Let_def)

text \<open>
  A waiting room with one player and a finished room are both returned as they are.
\<close>

theorem tick_idle_witness:
  "status (gameState oneHost) = Waiting \<and> tick oneHost 0 0 = oneHost \<and>
   status (gameState finishedRoom) = Finished \<and> tick finishedRoom 0 0 = finishedRoom"
proof -
  have a: "status (gameState oneHost) = Waiting"
    by (simp add: oneHost_def addPlayer_def createGameServerState_def createInitialGameState_def
        Let_def)
  have b: "status (gameState finishedRoom) = Finished"
    by (simp add: finishedRoom_def)
  show ?thesis
    using tick_idle [of oneHost 0 0] tick_idle [of finishedRoom 0 0] a b by simp
qed

text \<open>
  Claim C7 as written has the tick counter go up by one. In a waiting room it stays at 0.
\<close>

theorem tick_idle_counterexample:
  "status (gameState oneHost) = Waiting \<and>
   tickCount (tick oneHost 0 0) \<noteq> tickCount oneHost + 1"
  by (simp add: oneHost_def addPlayer_def createGameServerState_def createInitialGameState_def
      tick_def Let_def)

text \<open>
  Claim C2, as the code has it. For every game-room state with \<^verbatim>\<open>score1 = 6\<close>,
  \<^verbatim>\<open>handleScoring(state, 'player1')\<close> yields \<^verbatim>\<open>score1 = 7\<close>, the status \<^verbatim>\<open>'finished'\<close> and the
  winner \<^verbatim>\<open>'player1'\<close> and changes nothing else, so the ball position and velocity are as
  they were (no reset, no serve). For every state with \<^verbatim>\<open>score2 = 6\<close> and \<^verbatim>\<open>score1\<close> below 7,
  \<^verbatim>\<open>handleScoring(state, 'player2')\<close> does the same for player 2. The test of \<^verbatim>\<open>score1\<close> comes
  first in the code, which is why the second half needs \<^verbatim>\<open>score1\<close> below 7.
\<close>

theorem handleScoring_win:
  "(score1 (gameState st) = 6 \<longrightarrow>
      handleScoring st Player1 r =
        st\<lparr>gameState := (gameState st)\<lparr>score1 := 7, winner := Some Player1, status := Finished\<rparr>\<rparr>) \<and>
   (score2 (gameState st) = 6 \<and> score1 (gameState st) < 7 \<longrightarrow>
      handleScoring st Player2 r =
        st\<lparr>gameState := (gameState st)\<lparr>score2 := 7, winner := Some Player2, status := Finished\<rparr>\<rparr>)"
  by (simp add: handleScoring_def Let_def WINNING_SCORE_def)

text \<open>
  At 6 to 6 with the ball at \<open>x = 103\<close> moving right, either scorer wins the match and the
  ball stays where it is.
\<close>

theorem handleScoring_win_witness:
  "score1 (gameState matchPoint) = 6 \<and> score2 (gameState matchPoint) = 6 \<and>
   score1 (gameState (handleScoring matchPoint Player1 (1 / 2))) = 7 \<and>
   status (gameState (handleScoring matchPoint Player1 (1 / 2))) = Finished \<and>
   winner (gameState (handleScoring matchPoint Player1 (1 / 2))) = Some Player1 \<and>
   ballX (gameState (handleScoring matchPoint Player1 (1 / 2))) = 103 \<and>
   ballVelX (gameState (handleScoring matchPoint Player1 (1 / 2))) = 1 \<and>
   score2 (gameState (handleScoring matchPoint Player2 (1 / 2))) = 7 \<and>
   winner (gameState (handleScoring matchPoint Player2 (1 / 2))) = Some Player2 \<and>
   ballX (gameState (handleScoring matchPoint Player2 (1 / 2))) = 103"
  using handleScoring_win [of matchPoint "1 / 2"]
  by (simp add: matchPoint_def)

text \<open>
  Claim C2 as written is symmetric. At \<^verbatim>\<open>score1 = 7\<close> and \<^verbatim>\<open>score2 = 6\<close>, a point of player 2
  gives \<^verbatim>\<open>score2 = 7\<close> and the winner \<^verbatim>\<open>'player1'\<close>: \<^verbatim>\<open>score1 >= WINNING_SCORE\<close> is tested
  first.
\<close>

theorem handleScoring_win_counterexample:
  "score2 (gameState aheadRoom) = 6 \<and>
   score2 (gameState (handleScoring aheadRoom Player2 (1 / 2))) = 7 \<and>
   winner (gameState (handleScoring aheadRoom Player2 (1 / 2))) = Some Player1"
  by (simp add: aheadRoom_def handleScoring_def Let_def WINNING_SCORE_def)

lemma serve_cos_pos:
  fixes r :: real
  assumes "0 \<le> r" and "r < 1"
  shows "0 < cos ((r - 1 / 2) * (pi / 2))"
proof (rule cos_gt_zero_pi)
  have "- (1 / 2) * (pi / 2) \<le> (r - 1 / 2) * (pi / 2)"
    using assms by (intro mult_right_mono) simp_all
  then show "- (pi / 2) < (r - 1 / 2) * (pi / 2)"
    using pi_gt_zero by linarith
  have "(r - 1 / 2) * (pi / 2) < (1 / 2) * (pi / 2)"
    using assms by (intro mult_strict_right_mono) simp_all
  then show "(r - 1 / 2) * (pi / 2) < pi / 2"
    using pi_gt_zero by linarith
qed

lemma startBall_fields:
  "ballX (startBall sd r) = 50 \<and> ballY (startBall sd r) = 50 \<and>
   ballVelX (startBall sd r) =
     (if sd = Player1 then - 1 else 1) * BALL_INITIAL_SPEED * cos ((r - 1 / 2) * (pi / 2)) \<and>
   ballVelY (startBall sd r) = BALL_INITIAL_SPEED * sin ((r - 1 / 2) * (pi / 2))"
  by (simp add: startBall_def Let_def)

lemma startBall_velX:
  assumes "0 \<le> r" and "r < 1"
  shows "(sd = Player1 \<longrightarrow> ballVelX (startBall sd r) < 0) \<and>
         (sd = Player2 \<longrightarrow> 0 < ballVelX (startBall sd r))"
  using serve_cos_pos [OF assms]
  by (cases sd) (simp_all add: startBall_fields BALL_INITIAL_SPEED_def)

lemma handleScoring_continue:
  assumes "status (gameState st) \<noteq> Finished"
    and "(if scorer = Player1 then score1 (gameState st) + 1 else score1 (gameState st)) < 7"
    and "(if scorer = Player1 then score2 (gameState st) else score2 (gameState st) + 1) < 7"
  shows "handleScoring st scorer r =
     st\<lparr>gameState :=
         spreadBall
           ((gameState st)
              \<lparr>score1 := (if scorer = Player1 then score1 (gameState st) + 1
                          else score1 (gameState st)),
               score2 := (if scorer = Player1 then score2 (gameState st)
                          else score2 (gameState st) + 1),
               winner := None\<rparr>)
           (startBall scorer r)\<rparr>"
  using assms by (cases scorer) (simp_all add: handleScoring_def Let_def WINNING_SCORE_def spreadBall_def)

text \<open>
  Claim C3, as the code has it. For every game-room state whose status is not \<^verbatim>\<open>'finished'\<close>
  and in which both scores stay below 7 once the scorer's one is incremented,
  \<^verbatim>\<open>handleScoring(state, scorer)\<close> increments the scorer's score and leaves the other score
  and the status, and serves the ball from the centre \<open>(50, 50)\<close> with a horizontal velocity
  that is not zero and points to the scoring side: negative when the scorer is
  \<^verbatim>\<open>'player1'\<close>, positive when it is \<^verbatim>\<open>'player2'\<close>. \<open>r\<close> is the value of \<^verbatim>\<open>Math.random()\<close>, with
  \<open>0 \<le> r < 1\<close>.
\<close>

theorem handleScoring_reserve:
  assumes "0 \<le> r" and "r < 1"
    and "status (gameState st) \<noteq> Finished"
    and "(if scorer = Player1 then score1 (gameState st) + 1 else score1 (gameState st)) < 7"
    and "(if scorer = Player1 then score2 (gameState st) else score2 (gameState st) + 1) < 7"
  shows "score1 (gameState (handleScoring st scorer r)) =
           (if scorer = Player1 then score1 (gameState st) + 1 else score1 (gameState st)) \<and>
         score2 (gameState (handleScoring st scorer r)) =
           (if scorer = Player1 then score2 (gameState st) else score2 (gameState st) + 1) \<and>
         status (gameState (handleScoring st scorer r)) = status (gameState st) \<and>
         ballX (gameState (handleScoring st scorer r)) = 50 \<and>
         ballY (gameState (handleScoring st scorer r)) = 50 \<and>
         ballVelX (gameState (handleScoring st scorer r)) \<noteq> 0 \<and>
         (scorer = Player1 \<longrightarrow> ballVelX (gameState (handleScoring st scorer r)) < 0) \<and>
         (scorer = Player2 \<longrightarrow> 0 < ballVelX (gameState (handleScoring st scorer r)))"
proof -
  have v: "ballVelX (gameState (handleScoring st scorer r)) = ballVelX (startBall scorer r)"
    by (simp add: handleScoring_continue [OF assms(3-5)] spreadBall_def)
  have x: "ballX (gameState (handleScoring st scorer r)) = 50"
    and y: "ballY (gameState (handleScoring st scorer r)) = 50"
    by (simp_all add: handleScoring_continue [OF assms(3-5)] spreadBall_def startBall_fields)
  have s: "score1 (gameState (handleScoring st scorer r)) =
           (if scorer = Player1 then score1 (gameState st) + 1 else score1 (gameState st))"
    "score2 (gameState (handleScoring st scorer r)) =
           (if scorer = Player1 then score2 (gameState st) else score2 (gameState st) + 1)"
    "status (gameState (handleScoring st scorer r)) = status (gameState st)"
    by (simp_all add: handleScoring_continue [OF assms(3-5)] spreadBall_def)
  have d: "(scorer = Player1 \<longrightarrow> ballVelX (startBall scorer r) < 0) \<and>
         (scorer = Player2 \<longrightarrow> 0 < ballVelX (startBall scorer r))"
    by (rule startBall_velX [OF assms(1,2)])
  then have n: "ballVelX (startBall scorer r) \<noteq> 0"
    by (cases scorer) auto
  show ?thesis
    unfolding v using x y s d n by blast
qed

text \<open>
  At 2 to 3, a point of player 1 gives 3 to 3 and a ball that leaves the centre to the
  left; a point of player 2 gives 2 to 4 and a ball that leaves to the right.
\<close>

theorem handleScoring_reserve_witness:
  "score1 (gameState (handleScoring midGame Player1 (1 / 2))) = 3 \<and>
   score2 (gameState (handleScoring midGame Player1 (1 / 2))) = 3 \<and>
   ballX (gameState (handleScoring midGame Player1 (1 / 2))) = 50 \<and>
   ballY (gameState (handleScoring midGame Player1 (1 / 2))) = 50 \<and>
   ballVelX (gameState (handleScoring midGame Player1 (1 / 2))) < 0 \<and>
   score2 (gameState (handleScoring midGame Player2 (1 / 2))) = 4 \<and>
   0 < ballVelX (gameState (handleScoring midGame Player2 (1 / 2)))"
proof -
  have g: "status (gameState midGame) = Playing" "score1 (gameState midGame) = 2"
    "score2 (gameState midGame) = 3"
    by (simp_all add: midGame_def)
  show ?thesis
    using handleScoring_reserve [of "1 / 2" midGame Player1]
      handleScoring_reserve [of "1 / 2" midGame Player2] g
    by simp
qed

text \<open>
  Claim C3 as written speaks of every state in which the scorer's incremented score stays
  below 7. In a room whose status is already \<^verbatim>\<open>'finished'\<close>, at 0 to 0, a point of player 1
  gives 1 to 0 and the ball stays at \<open>x = 30\<close> with no velocity; in a room in play at 7 to 0,
  a point of player 2 gives 7 to 1, the status \<^verbatim>\<open>'finished'\<close>, and the ball stays too.
\<close>

theorem handleScoring_reserve_counterexample:
  "score1 (gameState (handleScoring finishedRoom Player1 (1 / 2))) = 1 \<and>
   ballX (gameState (handleScoring finishedRoom Player1 (1 / 2))) = 30 \<and>
   ballVelX (gameState (handleScoring finishedRoom Player1 (1 / 2))) = 0 \<and>
   score2 (gameState (handleScoring leadRoom Player2 (1 / 2))) = 1 \<and>
   status (gameState (handleScoring leadRoom Player2 (1 / 2))) = Finished \<and>
   ballX (gameState (handleScoring leadRoom Player2 (1 / 2))) = 30 \<and>
   ballVelX (gameState (handleScoring leadRoom Player2 (1 / 2))) = 0"
  by (simp add: finishedRoom_def leadRoom_def gameState_twoPlayers createInitialGameState_def
      handleScoring_def Let_def WINNING_SCORE_def)

subsection \<open>Properties of the matchmaking queue\<close>

lemma lower_Player1: "asciiLowerCase ''Player1'' = ''player1''"
  by code_simp

lemma lower_player1: "asciiLowerCase ''player1'' = ''player1''"
  by code_simp

lemma lower_Player2: "asciiLowerCase ''Player2'' = ''player2''"
  by code_simp

lemma lowerChar_table:
  "list_all (\<lambda>(u, l). lowerChar u = l \<and> lowerChar l = l) (zip upperLetters lowerLetters)"
  by code_simp

lemma sameLetter_lowerChar: "sameLetter c d \<Longrightarrow> lowerChar c = lowerChar d"
  using lowerChar_table by (auto simp: sameLetter_def list_all_iff)

lemma caseVariant_asciiLowerCase:
  "caseVariant s t \<Longrightarrow> asciiLowerCase s = asciiLowerCase t"
  unfolding caseVariant_def asciiLowerCase_def
  by (induction rule: list_all2_induct) (simp_all add: sameLetter_lowerChar)

lemma caseVariant_toLowerCase:
  assumes "lowersAscii toLowerCase" and "isAscii name" and "isAscii name'"
    and "caseVariant name name'"
  shows "toLowerCase name = toLowerCase name'"
proof -
  have "toLowerCase name = asciiLowerCase name" and "toLowerCase name' = asciiLowerCase name'"
    using assms(1-3) by (simp_all add: lowersAscii_def)
  then show ?thesis
    using caseVariant_asciiLowerCase [OF assms(4)] by simp
qed

text \<open>
  Claim C4. For every matchmaker state, connection id and name: when the lower-cased name
  is in the set of active names, \<^verbatim>\<open>joinQueue\<close> fails with the error \<^verbatim>\<open>USERNAME_TAKEN\<close> and
  returns the state unchanged; otherwise it succeeds, appends the player at the tail of the
  queue, adds the lower-cased name to the active set and returns the player's 1-based
  position, the length of the new queue. The test is case-insensitive: a name that differs
  only in the case of its letters from a name whose lower-cased form is active (as
  \<^verbatim>\<open>'Player1'\<close> from \<^verbatim>\<open>'player1'\<close>) is refused. The first two parts hold whatever
  \<^verbatim>\<open>toLowerCase\<close> does; the third one is stated of ASCII names, on which \<^verbatim>\<open>toLowerCase\<close> is
  \<open>asciiLowerCase\<close>.
\<close>

theorem joinQueue_spec:
  "(toLowerCase name \<in> activeUsernames st \<longrightarrow>
      joinQueue toLowerCase st cid name now =
        \<lparr>success = False, state = st, position = None, error = Some USERNAME_TAKEN\<rparr>) \<and>
   (toLowerCase name \<notin> activeUsernames st \<longrightarrow>
      success (joinQueue toLowerCase st cid name now) \<and>
      error (joinQueue toLowerCase st cid name now) = None \<and>
      queue (JoinQueueResult.state (joinQueue toLowerCase st cid name now)) =
        queue st @ [\<lparr>connectionId = cid, username = name, joinedAt = now\<rparr>] \<and>
      activeUsernames (JoinQueueResult.state (joinQueue toLowerCase st cid name now)) =
        insert (toLowerCase name) (activeUsernames st) \<and>
      position (joinQueue toLowerCase st cid name now) = Some (length (queue st) + 1) \<and>
      position (joinQueue toLowerCase st cid name now) =
        Some (length (queue (JoinQueueResult.state (joinQueue toLowerCase st cid name now))))) \<and>
   (lowersAscii toLowerCase \<and> isAscii name \<and> isAscii name' \<and> caseVariant name name' \<and>
    toLowerCase name' \<in> activeUsernames st \<longrightarrow>
      joinQueue toLowerCase st cid name now =
        \<lparr>success = False, state = st, position = None, error = Some USERNAME_TAKEN\<rparr>)"
proof (intro conjI impI)
  assume "toLowerCase name \<in> activeUsernames st"
  then show "joinQueue toLowerCase st cid name now =
        \<lparr>success = False, state = st, position = None, error = Some USERNAME_TAKEN\<rparr>"
    by (simp add: joinQueue_def Let_def)
next
  assume a: "lowersAscii toLowerCase \<and> isAscii name \<and> isAscii name' \<and> caseVariant name name' \<and>
    toLowerCase name' \<in> activeUsernames st"
  then have "toLowerCase name = toLowerCase name'"
    by (intro caseVariant_toLowerCase) simp_all
  with a have "toLowerCase name \<in> activeUsernames st"
    by simp
  then show "joinQueue toLowerCase st cid name now =
        \<lparr>success = False, state = st, position = None, error = Some USERNAME_TAKEN\<rparr>"
    by (simp add: joinQueue_def Let_def)
qed (simp_all add: joinQueue_def Let_def)

lemma onePlayer1_eq:
  "onePlayer1 =
     \<lparr>queue = [\<lparr>connectionId = ''conn-1'', username = ''player1'', joinedAt = 1000\<rparr>],
      activeUsernames = {''player1''}\<rparr>"
  by (simp add: onePlayer1_def joinQueue_def createMatchmakerState_def Let_def lower_player1)

lemma lowersAscii_asciiLowerCase: "lowersAscii asciiLowerCase"
  by (simp add: lowersAscii_def)

lemma caseVariant_Player1: "caseVariant ''Player1'' ''player1''"
  by code_simp

lemma isAscii_Player1: "isAscii ''Player1'' \<and> isAscii ''player1''"
  by code_simp

text \<open>
  With \<^verbatim>\<open>'player1'\<close> queued, \<^verbatim>\<open>'Player1'\<close> is refused and \<^verbatim>\<open>'Player2'\<close> joins at position 2.
\<close>

theorem joinQueue_spec_witness:
  "lowersAscii asciiLowerCase \<and> isAscii ''Player1'' \<and> isAscii ''player1'' \<and>
   caseVariant ''Player1'' ''player1'' \<and>
   asciiLowerCase ''player1'' \<in> activeUsernames onePlayer1 \<and>
   joinQueue asciiLowerCase onePlayer1 ''conn-2'' ''Player1'' 1001 =
     \<lparr>success = False, state = onePlayer1, position = None, error = Some USERNAME_TAKEN\<rparr> \<and>
   success (joinQueue asciiLowerCase onePlayer1 ''conn-2'' ''Player2'' 1001) \<and>
   queue (JoinQueueResult.state (joinQueue asciiLowerCase onePlayer1 ''conn-2'' ''Player2'' 1001)) =
     [\<lparr>connectionId = ''conn-1'', username = ''player1'', joinedAt = 1000\<rparr>,
      \<lparr>connectionId = ''conn-2'', username = ''Player2'', joinedAt = 1001\<rparr>] \<and>
   activeUsernames
       (JoinQueueResult.state (joinQueue asciiLowerCase onePlayer1 ''conn-2'' ''Player2'' 1001)) =
     {''player2'', ''player1''} \<and>
   position (joinQueue asciiLowerCase onePlayer1 ''conn-2'' ''Player2'' 1001) = Some 2"
proof -
  have a: "asciiLowerCase ''player1'' \<in> activeUsernames onePlayer1"
    by (simp add: onePlayer1_eq lower_player1)
  have b: "asciiLowerCase ''Player2'' \<notin> activeUsernames onePlayer1"
    by (simp add: onePlayer1_eq lower_Player2)
  have q: "queue onePlayer1 =
      [\<lparr>connectionId = ''conn-1'', username = ''player1'', joinedAt = 1000\<rparr>]"
    and u: "activeUsernames onePlayer1 = {''player1''}"
    by (simp_all add: onePlayer1_eq)
  show ?thesis
    using joinQueue_spec [where toLowerCase = asciiLowerCase and name = "''Player1''"
        and name' = "''player1''" and st = onePlayer1 and cid = "''conn-2''" and now = 1001]
      joinQueue_spec [where toLowerCase = asciiLowerCase and name = "''Player2''"
        and name' = "''player1''" and st = onePlayer1 and cid = "''conn-2''" and now = 1001]
      a b lowersAscii_asciiLowerCase caseVariant_Player1 isAscii_Player1
    by (simp add: q u lower_Player2)
qed

text \<open>
  Claim C5. For every matchmaker state: with fewer than two players queued, \<^verbatim>\<open>findMatch\<close>
  returns no match and the state unchanged; otherwise it pairs the first two players of
  the queue, in their order, leaves the rest of the queue in its order and leaves the set
  of active names unchanged. From the queue \<open>[a, b, c, d]\<close> the first call pairs \<open>a\<close> and
  \<open>b\<close> and leaves \<open>[c, d]\<close>, and a second call pairs \<open>c\<close> and \<open>d\<close>.
\<close>

theorem findMatch_spec:
  "(length (queue st) < 2 \<longrightarrow> findMatch st rid = \<lparr>state = st, match = None\<rparr>) \<and>
   (2 \<le> length (queue st) \<longrightarrow>
      match (findMatch st rid) =
        Some \<lparr>player1 = queue st ! 0, player2 = queue st ! 1, gameRoomId = rid\<rparr> \<and>
      queue (FindMatchResult.state (findMatch st rid)) = drop 2 (queue st) \<and>
      activeUsernames (FindMatchResult.state (findMatch st rid)) = activeUsernames st) \<and>
   (queue st = [a, b, c, d] \<longrightarrow>
      match (findMatch st rid) = Some \<lparr>player1 = a, player2 = b, gameRoomId = rid\<rparr> \<and>
      queue (FindMatchResult.state (findMatch st rid)) = [c, d] \<and>
      match (findMatch (FindMatchResult.state (findMatch st rid)) rid') =
        Some \<lparr>player1 = c, player2 = d, gameRoomId = rid'\<rparr> \<and>
      queue (FindMatchResult.state (findMatch (FindMatchResult.state (findMatch st rid)) rid')) = [])"
proof (intro conjI impI)
  assume "length (queue st) < 2"
  then show "findMatch st rid = \<lparr>state = st, match = None\<rparr>"
    by (simp add: findMatch_def)
next
  assume "2 \<le> length (queue st)"
  then show "match (findMatch st rid) =
        Some \<lparr>player1 = queue st ! 0, player2 = queue st ! 1, gameRoomId = rid\<rparr>"
    and "queue (FindMatchResult.state (findMatch st rid)) = drop 2 (queue st)"
    and "activeUsernames (FindMatchResult.state (findMatch st rid)) = activeUsernames st"
    by (simp_all add: findMatch_def Let_def)
next
  assume q: "queue st = [a, b, c, d]"
  then have f: "findMatch st rid =
      \<lparr>state = \<lparr>queue = [c, d], activeUsernames = activeUsernames st\<rparr>,
       match = Some \<lparr>player1 = a, player2 = b, gameRoomId = rid\<rparr>\<rparr>"
    by (simp add: findMatch_def Let_def)
  show "match (findMatch st rid) = Some \<lparr>player1 = a, player2 = b, gameRoomId = rid\<rparr>"
    and "queue (FindMatchResult.state (findMatch st rid)) = [c, d]"
    by (simp_all add: f)
  show "match (findMatch (FindMatchResult.state (findMatch st rid)) rid') =
        Some \<lparr>player1 = c, player2 = d, gameRoomId = rid'\<rparr>"
    and "queue (FindMatchResult.state (findMatch (FindMatchResult.state (findMatch st rid)) rid')) = []"
    unfolding f by (simp_all add: findMatch_def Let_def)
qed

text \<open>
  One queued player gives no match; four queued players give two matches, in order.
\<close>

theorem findMatch_spec_witness:
  "findMatch onePlayer1 ''game-x'' = \<lparr>state = onePlayer1, match = None\<rparr> \<and>
   match (findMatch fourQueued ''game-x'') =
     Some \<lparr>player1 = queuedA, player2 = queuedB, gameRoomId = ''game-x''\<rparr> \<and>
   queue (FindMatchResult.state (findMatch fourQueued ''game-x'')) = [queuedC, queuedD] \<and>
   activeUsernames (FindMatchResult.state (findMatch fourQueued ''game-x'')) =
     {''alice'', ''bob'', ''carol'', ''dave''} \<and>
   match (findMatch (FindMatchResult.state (findMatch fourQueued ''game-x'')) ''game-y'') =
     Some \<lparr>player1 = queuedC, player2 = queuedD, gameRoomId = ''game-y''\<rparr>"
proof -
  have q: "queue fourQueued = [queuedA, queuedB, queuedC, queuedD]"
    and u: "activeUsernames fourQueued = {''alice'', ''bob'', ''carol'', ''dave''}"
    by (simp_all add: fourQueued_def)
  have o: "length (queue onePlayer1) < 2"
    by (simp add: onePlayer1_eq)
  show ?thesis
    using findMatch_spec [of onePlayer1 "''game-x''"] o
      findMatch_spec [of fourQueued "''game-x''" queuedA queuedB queuedC queuedD "''game-y''"] q u
    by simp
qed

end
